theory Spec2Isabelle
  imports Main
begin

section \<open>The credential store and the command outcomes\<close>

text \<open>
  The store of \<^verbatim>\<open>plaid_cli.Data\<close> as \<^verbatim>\<open>cmd/plaid-cli/main.go\<close> uses it: three Go maps
  from string to string. A Go map is a partial function; the maps are taken as
  initialised (writing to a nil map is outside this model).
\<close>

record TokenPair =
  ItemID :: string
  AccessToken :: string

record Data =
  Tokens :: "string \<rightharpoonup> string"
  Aliases :: "string \<rightharpoonup> string"
  BackAliases :: "string \<rightharpoonup> string"

text \<open>A Go \<^verbatim>\<open>error\<close> value is represented by its message; \<^verbatim>\<open>nil\<close> is \<open>None\<close>.\<close>

type_synonym go_error = string

text \<open>
  How one run of a command ends: the \<^verbatim>\<open>Run\<close> closure returns, \<^verbatim>\<open>log.Fatal*\<close> prints
  a message and exits with status 1, a run-time panic aborts the process with status 2,
  or the argument validator of the command rejects the arguments before \<^verbatim>\<open>Run\<close>.
\<close>

datatype panic = Index_out_of_range | Nil_pointer_dereference

datatype exit = Returned | Fatal string | Panicked panic | Usage_error

fun exit_status :: "exit \<Rightarrow> nat" where
  "exit_status Returned = 0"
| "exit_status (Fatal _) = 1"
| "exit_status (Panicked _) = 2"
| "exit_status Usage_error = 0"

text \<open>
  The calls a command makes into \<^verbatim>\<open>pkg/plaid_cli\<close> and the API client, in order.
\<close>

datatype call =
    Link_call string
  | Relink_call string string
  | Save_call
  | GetTransactions_call string string string

text \<open>
  The state a command works on: the in-memory \<^verbatim>\<open>data\<close> and the persisted store
  (of any type \<open>'fs\<close>), which only \<^verbatim>\<open>data.Save()\<close> touches.
\<close>

record 'fs state =
  data :: Data
  store :: "'fs"

record 'fs outcome =
  exit :: exit
  after :: "'fs state"
  trace :: "call list"

text \<open>
  \<^verbatim>\<open>linker.Link\<close> and \<^verbatim>\<open>linker.Relink\<close> return a Go pair \<^verbatim>\<open>(*TokenPair, error)\<close>: both
  components are nullable and independent. \<^verbatim>\<open>data.Save()\<close> returns an \<^verbatim>\<open>error\<close> and
  may change the persisted store. The three are parameters of the commands; the linker
  is taken not to write to the three maps of \<^verbatim>\<open>data\<close> itself (the caller stores the
  pair it returns).
\<close>

type_synonym link_result = "TokenPair option \<times> go_error option"

record linker =
  Link :: "string \<Rightarrow> link_result"
  Relink :: "string \<Rightarrow> string \<Rightarrow> link_result"

type_synonym 'fs saver = "Data \<Rightarrow> 'fs \<Rightarrow> go_error option \<times> 'fs"

subsection \<open>Argument validators\<close>

definition MaximumNArgs :: "nat \<Rightarrow> string list \<Rightarrow> bool" where
  "MaximumNArgs n args = (length args \<le> n)"

definition ExactArgs :: "nat \<Rightarrow> string list \<Rightarrow> bool" where
  "ExactArgs n args = (length args = n)"

subsection \<open>Alias resolution\<close>

text \<open>
  Lines 77-80 and 161-164: \<^verbatim>\<open>itemID, ok := data.Aliases[itemOrAlias]; if ok { itemOrAlias = itemID }\<close>.
\<close>

definition resolveAlias :: "Data \<Rightarrow> string \<Rightarrow> string" where
  "resolveAlias d itemOrAlias =
     (case Aliases d itemOrAlias of Some itemID \<Rightarrow> itemID | None \<Rightarrow> itemOrAlias)"

subsection \<open>The link command\<close>

text \<open>
  Lines 87-91: the token pair is dereferenced with no check of \<^verbatim>\<open>err\<close>, which
  \<^verbatim>\<open>data.Save()\<close> then overwrites.
\<close>

definition link_store :: "'fs saver \<Rightarrow> 'fs state \<Rightarrow> call list \<Rightarrow> link_result \<Rightarrow> 'fs outcome" where
  "link_store Save s tr res =
     (case fst res of
        None \<Rightarrow> \<lparr>exit = Panicked Nil_pointer_dereference, after = s, trace = tr\<rparr>
      | Some tokenPair \<Rightarrow>
          (let d = (data s)\<lparr>Tokens := (Tokens (data s))(ItemID tokenPair \<mapsto> AccessToken tokenPair)\<rparr>;
               saved = Save d (store s)
           in \<lparr>exit = (case fst saved of None \<Rightarrow> Returned | Some err \<Rightarrow> Fatal err),
               after = \<lparr>data = d, store = snd saved\<rparr>,
               trace = tr @ [Save_call]\<rparr>))"

definition linkCommand_Run ::
    "linker \<Rightarrow> 'fs saver \<Rightarrow> string \<Rightarrow> 'fs state \<Rightarrow> string list \<Rightarrow> 'fs outcome" where
  "linkCommand_Run l Save port s args =
     (case args of
        [] \<Rightarrow> \<lparr>exit = Panicked Index_out_of_range, after = s, trace = []\<rparr>
      | itemOrAlias # _ \<Rightarrow>
          (if length itemOrAlias > 0
           then (let itemID = resolveAlias (data s) itemOrAlias
                 in link_store Save s [Relink_call itemID port] (Relink l itemID port))
           else link_store Save s [Link_call port] (Link l port)))"

definition linkCommand ::
    "linker \<Rightarrow> 'fs saver \<Rightarrow> string \<Rightarrow> 'fs state \<Rightarrow> string list \<Rightarrow> 'fs outcome" where
  "linkCommand l Save port s args =
     (if MaximumNArgs 1 args then linkCommand_Run l Save port s args
      else \<lparr>exit = Usage_error, after = s, trace = []\<rparr>)"

subsection \<open>The tokens command\<close>





subsection \<open>The alias command\<close>

text \<open>The message of \<^verbatim>\<open>log.Fatalf\<close> at line 128, without its final line break.\<close>

definition no_token_message :: "string \<Rightarrow> string" where
  "no_token_message itemID =
     ''No access token found for item ID `'' @ itemID @
     ''`. Try re-linking your account with `plaid-cli link`.''"

text \<open>Lines 131-132: the two map assignments.\<close>

definition assign_alias :: "Data \<Rightarrow> string \<Rightarrow> string \<Rightarrow> Data" where
  "assign_alias d itemID name =
     d\<lparr>Aliases := (Aliases d)(name \<mapsto> itemID), BackAliases := (BackAliases d)(itemID \<mapsto> name)\<rparr>"

definition aliasCommand_Run :: "'fs saver \<Rightarrow> 'fs state \<Rightarrow> string list \<Rightarrow> 'fs outcome" where
  "aliasCommand_Run Save s args =
     (case args of
        itemID # name # _ \<Rightarrow>
          (if Tokens (data s) itemID = None
           then \<lparr>exit = Fatal (no_token_message itemID), after = s, trace = []\<rparr>
           else (let d = assign_alias (data s) itemID name;
                     saved = Save d (store s)
                 in \<lparr>exit = (case fst saved of None \<Rightarrow> Returned | Some err \<Rightarrow> Fatal err),
                     after = \<lparr>data = d, store = snd saved\<rparr>,
                     trace = [Save_call]\<rparr>))
      | _ \<Rightarrow> \<lparr>exit = Panicked Index_out_of_range, after = s, trace = []\<rparr>)"

definition aliasCommand :: "'fs saver \<Rightarrow> 'fs state \<Rightarrow> string list \<Rightarrow> 'fs outcome" where
  "aliasCommand Save s args =
     (if ExactArgs 2 args then aliasCommand_Run Save s args
      else \<lparr>exit = Usage_error, after = s, trace = []\<rparr>)"

subsection \<open>The transactions command\<close>

datatype serializer = CSVSerializer | JSONSerializer

definition NewTransactionSerializer :: "string \<Rightarrow> go_error + serializer" where
  "NewTransactionSerializer t =
     (if t = ''csv'' then Inr CSVSerializer
      else if t = ''json'' then Inr JSONSerializer
      else Inl (''Invalid format: '' @ t))"

record report =
  ended :: exit
  called :: "call list"
  printed :: "string option"

text \<open>
  Lines 166-183, from the resolved item identifier on. A key missing from a Go map reads
  as the empty string. The API client and the two \<^verbatim>\<open>serialize\<close> methods (which format
  floating-point amounts) are parameters.
\<close>

definition transactions_fetch ::
    "(string \<Rightarrow> string \<Rightarrow> string \<Rightarrow> go_error + 'txs) \<Rightarrow> (serializer \<Rightarrow> 'txs \<Rightarrow> go_error + string) \<Rightarrow>
     Data \<Rightarrow> string \<Rightarrow> string \<Rightarrow> string \<Rightarrow> string \<Rightarrow> report" where
  "transactions_fetch GetTransactions serialize d itemID fromFlag toFlag outputFormat =
     (let token = (case Tokens d itemID of Some t \<Rightarrow> t | None \<Rightarrow> '''');
          tr = [GetTransactions_call token fromFlag toFlag]
      in case GetTransactions token fromFlag toFlag of
           Inl err \<Rightarrow> \<lparr>ended = Fatal err, called = tr, printed = None\<rparr>
         | Inr txs \<Rightarrow>
             (case NewTransactionSerializer outputFormat of
                Inl err \<Rightarrow> \<lparr>ended = Fatal err, called = tr, printed = None\<rparr>
              | Inr w \<Rightarrow>
                  (case serialize w txs of
                     Inl err \<Rightarrow> \<lparr>ended = Fatal err, called = tr, printed = None\<rparr>
                   | Inr b \<Rightarrow> \<lparr>ended = Returned, called = tr, printed = Some b\<rparr>)))"

definition transactionsCommand_Run ::
    "(string \<Rightarrow> string \<Rightarrow> string \<Rightarrow> go_error + 'txs) \<Rightarrow> (serializer \<Rightarrow> 'txs \<Rightarrow> go_error + string) \<Rightarrow>
     Data \<Rightarrow> string \<Rightarrow> string \<Rightarrow> string \<Rightarrow> string list \<Rightarrow> report" where
  "transactionsCommand_Run GetTransactions serialize d fromFlag toFlag outputFormat args =
     (case args of
        [] \<Rightarrow> \<lparr>ended = Panicked Index_out_of_range, called = [], printed = None\<rparr>
      | itemOrAlias # _ \<Rightarrow>
          transactions_fetch GetTransactions serialize d (resolveAlias d itemOrAlias)
            fromFlag toFlag outputFormat)"

section \<open>The linking handshake and the store file\<close>

text \<open>
  \<^verbatim>\<open>pkg/plaid_cli\<close> (the linker, its callback server and \<^verbatim>\<open>Data.Save\<close>) is called by
  \<^verbatim>\<open>main.go\<close> and is not part of the sources at hand. The definitions of this section
  follow the specification's sections 3, 4, 5 and 7.
\<close>

text \<open>
  Modelled from the spec: the error kinds of the linker (absent, in \<^verbatim>\<open>pkg/plaid_cli\<close>),
  what the widget's completion callback carries (a public token, or an error code and
  message), and the handshake session with its single-fire signal.
\<close>

datatype link_error =
    BindFailure
  | HandshakeTimeoutError
  | HandshakeRejected string
  | ExchangeError string
  | ItemMismatchError

datatype callback = Completed string | Abandoned string string

record HandshakeSession =
  target :: string
  bound_port :: string
  signal :: "(link_error + string) option"

text \<open>
  Modelled from the spec: the receiving path of the callback server (absent, in
  \<^verbatim>\<open>pkg/plaid_cli\<close>). It resolves the single-fire signal of the session with the public
  token, or with the error the widget reports; an invocation after the first is a no-op.
\<close>

definition receive :: "HandshakeSession \<Rightarrow> callback \<Rightarrow> HandshakeSession" where
  "receive h c =
     (case signal h of
        None \<Rightarrow> h\<lparr>signal := Some (case c of
                                    Completed publicToken \<Rightarrow> Inr publicToken
                                  | Abandoned errorCode errorMessage \<Rightarrow> Inl (HandshakeRejected errorCode))\<rparr>
      | Some _ \<Rightarrow> h)"

text \<open>
  Modelled from the spec: \<^verbatim>\<open>Await\<close> of the callback server (absent). It returns what the
  signal was resolved with; a signal never resolved is the timeout.
\<close>

definition Await :: "HandshakeSession \<Rightarrow> link_error + string" where
  "Await h = (case signal h of None \<Rightarrow> Inl HandshakeTimeoutError | Some r \<Rightarrow> r)"

text \<open>
  The world outside one handshake: whether the port binds, the invocations of the
  receiving path in their order of arrival, and the exchange endpoint (an error cause or
  a token pair).
\<close>

record handshake_env =
  binds :: "string \<Rightarrow> bool"
  callbacks :: "callback list"
  Exchange :: "string \<Rightarrow> string + TokenPair"

text \<open>
  Modelled from the spec: one handshake (absent, the common flow of \<^verbatim>\<open>Link\<close> and
  \<^verbatim>\<open>Relink\<close> in \<^verbatim>\<open>pkg/plaid_cli\<close>): bind the port, await the public token, exchange
  it; a failure at any stage is the tagged error and no pair is returned.
\<close>

definition handshake :: "handshake_env \<Rightarrow> string \<Rightarrow> string \<Rightarrow> link_error + TokenPair" where
  "handshake env itemID port =
     (if \<not> binds env port then Inl BindFailure
      else (case Await (foldl receive \<lparr>target = itemID, bound_port = port, signal = None\<rparr> (callbacks env)) of
              Inl e \<Rightarrow> Inl e
            | Inr publicToken \<Rightarrow>
                (case Exchange env publicToken of
                   Inl cause \<Rightarrow> Inl (ExchangeError cause)
                 | Inr tokenPair \<Rightarrow> Inr tokenPair)))"

text \<open>
  Modelled from the spec: \<^verbatim>\<open>Linker.Link\<close> (absent), a handshake with the empty target
  item identifier.
\<close>

definition spec_Link :: "handshake_env \<Rightarrow> string \<Rightarrow> link_error + TokenPair" where
  "spec_Link env port = handshake env '''' port"

text \<open>
  Modelled from the spec: \<^verbatim>\<open>Linker.Relink\<close> (absent), the same flow bound to \<open>itemID\<close>;
  an exchanged pair with another item identifier is the error \<open>ItemMismatchError\<close>.
\<close>

definition spec_Relink :: "handshake_env \<Rightarrow> string \<Rightarrow> string \<Rightarrow> link_error + TokenPair" where
  "spec_Relink env itemID port =
     (case handshake env itemID port of
        Inl e \<Rightarrow> Inl e
      | Inr tokenPair \<Rightarrow>
          (if ItemID tokenPair = itemID then Inr tokenPair else Inl ItemMismatchError))"

subsection \<open>Saving the store file\<close>

text \<open>
  A directory is a map from paths to file contents. The file operations: create an empty
  file (or truncate the file at that path), append one byte to a file, and rename a file
  over another path, which replaces what was there in one step.
\<close>

type_synonym files = "string \<rightharpoonup> string"

datatype file_op = Create string | Append string char | Rename string string

fun apply_op :: "files \<Rightarrow> file_op \<Rightarrow> files" where
  "apply_op fs (Create p) = fs(p \<mapsto> '''')"
| "apply_op fs (Append p c) = (case fs p of None \<Rightarrow> fs | Some content \<Rightarrow> fs(p \<mapsto> content @ [c]))"
| "apply_op fs (Rename p q) = (case fs p of None \<Rightarrow> fs | Some content \<Rightarrow> (fs(q \<mapsto> content))(p := None))"

text \<open>
  Modelled from the spec: the file operations of \<^verbatim>\<open>Data.Save\<close> (absent, in
  \<^verbatim>\<open>pkg/plaid_cli\<close>): the serialized maps are written to a temporary file, one byte
  after the other, and the temporary file then replaces the target by a rename.
\<close>

definition Save_ops :: "(Data \<Rightarrow> string) \<Rightarrow> string \<Rightarrow> string \<Rightarrow> Data \<Rightarrow> file_op list" where
  "Save_ops serialize tmp path d =
     Create tmp # map (Append tmp) (serialize d) @ [Rename tmp path]"

text \<open>
  Modelled from the spec: \<^verbatim>\<open>Data.Save\<close> (absent) stopped by a crash after its first
  \<open>k\<close> file operations; with \<open>k\<close> at least the number of operations it completes.
\<close>

definition Save_crashing :: "nat \<Rightarrow> (Data \<Rightarrow> string) \<Rightarrow> string \<Rightarrow> string \<Rightarrow> Data \<Rightarrow> files \<Rightarrow> files" where
  "Save_crashing k serialize tmp path d fs = foldl apply_op fs (take k (Save_ops serialize tmp path d))"

text \<open>Modelled from the spec: \<^verbatim>\<open>Data.Save\<close> (absent) running to its end.\<close>

definition spec_Save :: "(Data \<Rightarrow> string) \<Rightarrow> string \<Rightarrow> string \<Rightarrow> Data \<Rightarrow> files \<Rightarrow> go_error option \<times> files" where
  "spec_Save serialize tmp path d fs = (None, foldl apply_op fs (Save_ops serialize tmp path d))"

section \<open>Properties stated of the store, and example runs\<close>

text \<open>
  The forward-to-back consistency of the two alias maps that the specification's data
  model names as the invariant of the store.
\<close>

definition alias_inv :: "Data \<Rightarrow> bool" where
  "alias_inv d = (\<forall>a itemID. Aliases d a = Some itemID \<longrightarrow> BackAliases d itemID = Some a)"

text \<open>
  Collaborators and stores for the example runs: a \<^verbatim>\<open>Link\<close> that succeeds, a \<^verbatim>\<open>Relink\<close>
  that fails with a nil pair, a \<^verbatim>\<open>Relink\<close> that fails and still returns a pair, and a
  \<^verbatim>\<open>Save\<close> that always succeeds and keeps the saved maps as the persisted store.
\<close>

definition granting_Link :: "string \<Rightarrow> link_result" where
  "granting_Link port = (Some \<lparr>ItemID = ''item-1'', AccessToken = ''access-1''\<rparr>, None)"

definition failing_Relink :: "string \<Rightarrow> string \<Rightarrow> link_result" where
  "failing_Relink itemID port = (None, Some ''exchange failed'')"

definition stale_Relink :: "string \<Rightarrow> string \<Rightarrow> link_result" where
  "stale_Relink itemID port =
     (Some \<lparr>ItemID = itemID, AccessToken = ''''\<rparr>, Some ''exchange failed'')"

definition memory_Save :: "Data saver" where
  "memory_Save d fs = (None, d)"

definition one_item :: Data where
  "one_item = \<lparr>Tokens = [''item-1'' \<mapsto> ''access-1''], Aliases = Map.empty, BackAliases = Map.empty\<rparr>"

definition two_items :: Data where
  "two_items = \<lparr>Tokens = [''item-1'' \<mapsto> ''access-1'', ''item-2'' \<mapsto> ''access-2''],
                Aliases = Map.empty, BackAliases = Map.empty\<rparr>"



text \<open>The store after \<^verbatim>\<open>alias item-1 ""\<close>: the empty string is an alias.\<close>

definition unnamed :: Data where
  "unnamed = data (after (aliasCommand memory_Save \<lparr>data = one_item, store = one_item\<rparr> [''item-1'', '''']))"

text \<open>A store in which the string \<^verbatim>\<open>item-123\<close> is also the alias of another item.\<close>

definition shadowed :: Data where
  "shadowed = \<lparr>Tokens = [''item-123'' \<mapsto> ''access-123'', ''item-9'' \<mapsto> ''access-9''],
               Aliases = [''item-123'' \<mapsto> ''item-9''], BackAliases = [''item-9'' \<mapsto> ''item-123'']\<rparr>"

definition fresh_store :: Data where
  "fresh_store = \<lparr>Tokens = [''item-123'' \<mapsto> ''access-sandbox-xyz''],
                  Aliases = Map.empty, BackAliases = Map.empty\<rparr>"

definition sandbox_GetTransactions :: "string \<Rightarrow> string \<Rightarrow> string \<Rightarrow> go_error + string list" where
  "sandbox_GetTransactions token fromFlag toFlag =
     (if token = ''access-sandbox-xyz'' then Inr [] else Inl ''INVALID_ACCESS_TOKEN'')"

definition plain_serialize :: "serializer \<Rightarrow> string list \<Rightarrow> go_error + string" where
  "plain_serialize w txs = Inr (concat txs)"

text \<open>
  The states that alias commands reach when every command either names an item that is
  not linked (and so changes nothing) or names an item to which no alias other than the
  new one points in \<open>Aliases\<close>.
\<close>

inductive sole_alias_reach :: "'fs saver \<Rightarrow> 'fs state \<Rightarrow> 'fs state \<Rightarrow> bool"
  for Save :: "'fs saver" and s0 :: "'fs state" where
  start: "sole_alias_reach Save s0 s0"
| step: "sole_alias_reach Save s0 s \<Longrightarrow>
         Tokens (data s) itemID = None \<or> (\<forall>a. Aliases (data s) a = Some itemID \<longrightarrow> a = name) \<Longrightarrow>
         sole_alias_reach Save s0 (after (aliasCommand Save s [itemID, name]))"

text \<open>
  An exchange endpoint and a browser for the example handshakes: the port binds, the
  browser reports a public token twice, and the endpoint knows the first token only.
\<close>

definition sandbox_env :: handshake_env where
  "sandbox_env = \<lparr>binds = (\<lambda>port. True),
                  callbacks = [Completed ''public-sandbox-abc'', Completed ''public-sandbox-late''],
                  Exchange = (\<lambda>publicToken. if publicToken = ''public-sandbox-abc''
                      then Inr \<lparr>ItemID = ''item-123'', AccessToken = ''access-sandbox-xyz''\<rparr>
                      else Inl ''INVALID_PUBLIC_TOKEN'')\<rparr>"

definition idle_session :: HandshakeSession where
  "idle_session = \<lparr>target = ''item-123'', bound_port = ''8080'', signal = None\<rparr>"

text \<open>A serializer and a directory for the example saves.\<close>

definition item_1_line :: "Data \<Rightarrow> string" where
  "item_1_line d = ''item-1='' @ (case Tokens d ''item-1'' of Some token \<Rightarrow> token | None \<Rightarrow> '''')"

definition old_files :: files where
  "old_files = [''data.json'' \<mapsto> ''old'']"

section \<open>The link command\<close>

text \<open>
  Claim C1 says that a failure of \<^verbatim>\<open>Link\<close> or \<^verbatim>\<open>Relink\<close> is surfaced as an error and
  that the command never dereferences or persists a token pair when linking returned an
  error. The command does not look at \<^verbatim>\<open>err\<close>: with a nil pair and an error it ends in a
  nil-pointer panic and the error is never printed; with a pair and an error it stores
  the pair's token, saves and returns normally.
\<close>

theorem linkCommand_ignores_link_error:
  "linkCommand \<lparr>Link = granting_Link, Relink = failing_Relink\<rparr> Save port s [''item-1'']
     = \<lparr>exit = Panicked Nil_pointer_dereference, after = s,
        trace = [Relink_call (resolveAlias (data s) ''item-1'') port]\<rparr> \<and>
   linkCommand \<lparr>Link = granting_Link, Relink = stale_Relink\<rparr> memory_Save port
       \<lparr>data = one_item, store = one_item\<rparr> [''item-1'']
     = \<lparr>exit = Returned,
        after = \<lparr>data = one_item\<lparr>Tokens := [''item-1'' \<mapsto> '''']\<rparr>,
                 store = one_item\<lparr>Tokens := [''item-1'' \<mapsto> '''']\<rparr>\<rparr>,
        trace = [Relink_call ''item-1'' port, Save_call]\<rparr> \<and>
   exit_status (exit (linkCommand \<lparr>Link = granting_Link, Relink = stale_Relink\<rparr> memory_Save port
       \<lparr>data = one_item, store = one_item\<rparr> [''item-1''])) = 0"
  by (simp add: linkCommand_def MaximumNArgs_def linkCommand_Run_def link_store_def
      failing_Relink_def stale_Relink_def memory_Save_def one_item_def resolveAlias_def Let_def)

text \<open>
  Claim C9, as stated, says that \<^verbatim>\<open>linker.Link(port)\<close> cannot be reached without the
  out-of-bounds access at \<^verbatim>\<open>args[0]\<close>. One positional argument that is the empty string
  reaches it: the run calls \<^verbatim>\<open>Link\<close> and returns normally.
\<close>

theorem link_reached_with_empty_argument:
  "Link_call ''8080'' \<in> set (trace (linkCommand \<lparr>Link = granting_Link, Relink = failing_Relink\<rparr>
      memory_Save ''8080'' \<lparr>data = one_item, store = one_item\<rparr> [''''])) \<and>
   exit (linkCommand \<lparr>Link = granting_Link, Relink = failing_Relink\<rparr>
      memory_Save ''8080'' \<lparr>data = one_item, store = one_item\<rparr> ['''']) = Returned"
  by (simp add: linkCommand_def MaximumNArgs_def linkCommand_Run_def link_store_def
      granting_Link_def memory_Save_def Let_def)

text \<open>
  Claim C9, amended: the validator admits zero positional arguments, and the run then
  ends in the out-of-bounds access at \<^verbatim>\<open>args[0]\<close> with neither \<^verbatim>\<open>Link\<close> nor \<^verbatim>\<open>Relink\<close>
  called; \<^verbatim>\<open>linker.Link(port)\<close> is called exactly when the command is given one
  positional argument and that argument is the empty string.
\<close>

theorem link_zero_args_out_of_range:
  "MaximumNArgs 1 [] \<and>
   linkCommand l Save port s [] = \<lparr>exit = Panicked Index_out_of_range, after = s, trace = []\<rparr> \<and>
   (Link_call port \<in> set (trace (linkCommand l Save port s args)) \<longleftrightarrow> args = [''''])"
  by (cases args)
    (auto simp add: linkCommand_def MaximumNArgs_def linkCommand_Run_def link_store_def Let_def
      split: option.splits)

theorem link_zero_args_out_of_range_witness:
  "linkCommand \<lparr>Link = granting_Link, Relink = failing_Relink\<rparr> memory_Save ''8080''
       \<lparr>data = one_item, store = one_item\<rparr> []
     = \<lparr>exit = Panicked Index_out_of_range, after = \<lparr>data = one_item, store = one_item\<rparr>, trace = []\<rparr> \<and>
   Link_call ''8080'' \<notin> set (trace (linkCommand \<lparr>Link = granting_Link, Relink = failing_Relink\<rparr>
       memory_Save ''8080'' \<lparr>data = one_item, store = one_item\<rparr> [''item-1'']))"
  using link_zero_args_out_of_range
    [of "\<lparr>Link = granting_Link, Relink = failing_Relink\<rparr>" memory_Save "''8080''"
        "\<lparr>data = one_item, store = one_item\<rparr>" "[''item-1'']"]
  by simp

section \<open>The alias command\<close>

text \<open>
  Claim C2: the alias command requires \<open>itemID\<close> to be a key of \<open>Tokens\<close>. When it is
  not, the command fails (\<^verbatim>\<open>log.Fatalf\<close> with the message naming the item) and leaves
  the three maps and the persisted store as they were, without calling \<^verbatim>\<open>Save\<close>. When it
  is, the command sets \<open>Aliases[alias] = itemID\<close> and \<open>BackAliases[itemID] = alias\<close> and
  then calls \<^verbatim>\<open>Save\<close> once on the updated maps, failing only if \<^verbatim>\<open>Save\<close> does.
\<close>

theorem aliasCommand_sets_and_saves:
  "ExactArgs 2 [itemID, name] \<and>
   (Tokens (data s) itemID = None \<longrightarrow>
      aliasCommand Save s [itemID, name]
        = \<lparr>exit = Fatal (no_token_message itemID), after = s, trace = []\<rparr>) \<and>
   (Tokens (data s) itemID \<noteq> None \<longrightarrow>
      (let r = aliasCommand Save s [itemID, name]; d = data (after r)
       in Aliases d = (Aliases (data s))(name \<mapsto> itemID) \<and>
          BackAliases d = (BackAliases (data s))(itemID \<mapsto> name) \<and>
          Tokens d = Tokens (data s) \<and>
          trace r = [Save_call] \<and>
          store (after r) = snd (Save d (store s)) \<and>
          exit r = (case fst (Save d (store s)) of None \<Rightarrow> Returned | Some err \<Rightarrow> Fatal err)))"
  by (simp add: aliasCommand_def ExactArgs_def aliasCommand_Run_def assign_alias_def Let_def)

theorem aliasCommand_sets_and_saves_witness:
  "Tokens one_item ''item-2'' = None \<and>
   aliasCommand memory_Save \<lparr>data = one_item, store = one_item\<rparr> [''item-2'', ''checking'']
     = \<lparr>exit = Fatal (no_token_message ''item-2''),
        after = \<lparr>data = one_item, store = one_item\<rparr>, trace = []\<rparr> \<and>
   Tokens one_item ''item-1'' \<noteq> None \<and>
   Aliases (data (after (aliasCommand memory_Save \<lparr>data = one_item, store = one_item\<rparr>
      [''item-1'', ''checking'']))) ''checking'' = Some ''item-1'' \<and>
   BackAliases (store (after (aliasCommand memory_Save \<lparr>data = one_item, store = one_item\<rparr>
      [''item-1'', ''checking'']))) ''item-1'' = Some ''checking'' \<and>
   exit (aliasCommand memory_Save \<lparr>data = one_item, store = one_item\<rparr>
      [''item-1'', ''checking'']) = Returned"
proof -
  have absent: "Tokens (data \<lparr>data = one_item, store = one_item\<rparr>) ''item-2'' = None"
    by (simp add: one_item_def)
  have present: "Tokens (data \<lparr>data = one_item, store = one_item\<rparr>) ''item-1'' \<noteq> None"
    by (simp add: one_item_def)
  from absent present
    aliasCommand_sets_and_saves
      [of "''item-2''" "''checking''" "\<lparr>data = one_item, store = one_item\<rparr>" memory_Save]
    aliasCommand_sets_and_saves
      [of "''item-1''" "''checking''" "\<lparr>data = one_item, store = one_item\<rparr>" memory_Save]
  show ?thesis
    by (simp add: Let_def memory_Save_def)
qed

lemma aliasCommand_data:
  "data (after (aliasCommand Save s [itemID, name])) =
     (if Tokens (data s) itemID = None then data s else assign_alias (data s) itemID name)"
  by (simp add: aliasCommand_def ExactArgs_def aliasCommand_Run_def Let_def)

lemma assign_alias_inv_iff:
  assumes "alias_inv d"
  shows "alias_inv (assign_alias d itemID name) \<longleftrightarrow> (\<forall>a. Aliases d a = Some itemID \<longrightarrow> a = name)"
proof
  assume inv': "alias_inv (assign_alias d itemID name)"
  show "\<forall>a. Aliases d a = Some itemID \<longrightarrow> a = name"
  proof (intro allI impI, rule ccontr)
    fix a
    assume a: "Aliases d a = Some itemID" and ne: "a \<noteq> name"
    then have "Aliases (assign_alias d itemID name) a = Some itemID"
      by (simp add: assign_alias_def)
    with inv' have "BackAliases (assign_alias d itemID name) itemID = Some a"
      by (simp add: alias_inv_def)
    with ne show False by (simp add: assign_alias_def)
  qed
next
  assume "\<forall>a. Aliases d a = Some itemID \<longrightarrow> a = name"
  with assms show "alias_inv (assign_alias d itemID name)"
    unfolding alias_inv_def assign_alias_def by auto
qed

text \<open>
  Claim C3, as stated, says that every alias assignment preserves the invariant
  "if \<open>Aliases[a] = id\<close> then \<open>BackAliases[id] = a\<close>". The store with one linked item
  and no alias satisfies it; after \<^verbatim>\<open>alias item-1 a\<close> and \<^verbatim>\<open>alias item-1 b\<close> the
  entry \<open>Aliases[a] = item-1\<close> is still there and \<open>BackAliases[item-1]\<close> is \<open>b\<close>.
\<close>

theorem second_alias_breaks_alias_inv:
  "alias_inv one_item \<and>
   \<not> alias_inv (data (after (aliasCommand memory_Save
        (after (aliasCommand memory_Save \<lparr>data = one_item, store = one_item\<rparr> [''item-1'', ''a'']))
        [''item-1'', ''b''])))"
proof -
  have "alias_inv one_item"
    by (simp add: alias_inv_def one_item_def)
  moreover have "\<not> alias_inv (assign_alias (assign_alias one_item ''item-1'' ''a'') ''item-1'' ''b'')"
    unfolding alias_inv_def
    by (rule notI, drule spec [of _ "''a''"], drule spec [of _ "''item-1''"])
      (simp add: assign_alias_def)
  ultimately show ?thesis
    by (simp add: aliasCommand_data one_item_def assign_alias_def)
qed

text \<open>
  Claim C3, amended: on a store where the invariant "if \<open>Aliases[a] = id\<close> then
  \<open>BackAliases[id] = a\<close>" holds, an alias command for \<open>itemID\<close> and \<open>name\<close> preserves it
  exactly when \<open>itemID\<close> is not linked (the command then changes nothing) or no alias
  other than \<open>name\<close> maps to \<open>itemID\<close> in \<open>Aliases\<close>; so the invariant holds in every
  store state reached, from a state where it holds, by such commands.
\<close>

theorem alias_inv_preserved_iff:
  "(alias_inv (data s) \<longrightarrow>
      (alias_inv (data (after (aliasCommand Save s [itemID, name]))) \<longleftrightarrow>
         Tokens (data s) itemID = None \<or> (\<forall>a. Aliases (data s) a = Some itemID \<longrightarrow> a = name))) \<and>
   (sole_alias_reach Save s0 s' \<and> alias_inv (data s0) \<longrightarrow> alias_inv (data s'))"
proof (intro conjI impI)
  assume "alias_inv (data s)"
  then show "alias_inv (data (after (aliasCommand Save s [itemID, name]))) \<longleftrightarrow>
         Tokens (data s) itemID = None \<or> (\<forall>a. Aliases (data s) a = Some itemID \<longrightarrow> a = name)"
    by (auto simp add: aliasCommand_data assign_alias_inv_iff)
next
  assume "sole_alias_reach Save s0 s' \<and> alias_inv (data s0)"
  then have "sole_alias_reach Save s0 s'" and "alias_inv (data s0)" by simp_all
  then show "alias_inv (data s')"
  proof (induction rule: sole_alias_reach.induct)
    case start
    then show ?case by simp
  next
    case (step s itemID name)
    then have "alias_inv (data s)" by simp
    with step.hyps(2) show ?case
      by (auto simp add: aliasCommand_data assign_alias_inv_iff)
  qed
qed

theorem alias_inv_preserved_iff_witness:
  "alias_inv (data (after (aliasCommand memory_Save
      (after (aliasCommand memory_Save
         (after (aliasCommand memory_Save \<lparr>data = two_items, store = two_items\<rparr> [''item-1'', ''x'']))
         [''item-2'', ''x'']))
      [''item-1'', ''y''])))"
proof -
  let ?s0 = "\<lparr>data = two_items, store = two_items\<rparr>"
  let ?s1 = "after (aliasCommand memory_Save ?s0 [''item-1'', ''x''])"
  let ?s2 = "after (aliasCommand memory_Save ?s1 [''item-2'', ''x''])"
  let ?s3 = "after (aliasCommand memory_Save ?s2 [''item-1'', ''y''])"
  have inv: "alias_inv (data ?s0)"
    by (simp add: alias_inv_def two_items_def)
  have c1: "Tokens (data ?s0) ''item-1'' = None \<or>
      (\<forall>a. Aliases (data ?s0) a = Some ''item-1'' \<longrightarrow> a = ''x'')"
    by (simp add: two_items_def)
  have c2: "Tokens (data ?s1) ''item-2'' = None \<or>
      (\<forall>a. Aliases (data ?s1) a = Some ''item-2'' \<longrightarrow> a = ''x'')"
    by (simp add: aliasCommand_data two_items_def assign_alias_def)
  have c3: "Tokens (data ?s2) ''item-1'' = None \<or>
      (\<forall>a. Aliases (data ?s2) a = Some ''item-1'' \<longrightarrow> a = ''y'')"
    by (simp add: aliasCommand_data two_items_def assign_alias_def)
  have "sole_alias_reach memory_Save ?s0 ?s3"
    by (rule sole_alias_reach.step [OF sole_alias_reach.step [OF sole_alias_reach.step
          [OF sole_alias_reach.start c1] c2] c3])
  with inv alias_inv_preserved_iff [of ?s0 memory_Save "''item-1''" "''x''" ?s0 ?s3]
  show ?thesis by blast
qed

text \<open>
  Claim C4: when item \<open>id\<close> has alias \<open>a\<close> and is assigned alias \<open>b\<close>, afterwards
  \<open>Aliases[a]\<close> is still \<open>id\<close>, \<open>Aliases[b]\<close> is \<open>id\<close> and \<open>BackAliases[id]\<close> is \<open>b\<close>;
  every other entry of \<open>Aliases\<close> and of \<open>BackAliases\<close>, and all of \<open>Tokens\<close>, is as
  before.
\<close>

theorem reassigned_alias_dangles:
  assumes "Tokens (data s) itemID \<noteq> None" and "Aliases (data s) a = Some itemID"
    and "BackAliases (data s) itemID = Some a"
  shows "(let d = data (after (aliasCommand Save s [itemID, b]))
          in Aliases d a = Some itemID \<and> Aliases d b = Some itemID \<and>
             BackAliases d itemID = Some b \<and>
             (\<forall>x. x \<noteq> b \<longrightarrow> Aliases d x = Aliases (data s) x) \<and>
             (\<forall>y. y \<noteq> itemID \<longrightarrow> BackAliases d y = BackAliases (data s) y) \<and>
             Tokens d = Tokens (data s))"
  using assms by (auto simp add: aliasCommand_data assign_alias_def Let_def)

theorem reassigned_alias_dangles_witness:
  "Aliases (data (after (aliasCommand memory_Save
      \<lparr>data = assign_alias one_item ''item-1'' ''a'', store = one_item\<rparr> [''item-1'', ''b'']))) ''a''
     = Some ''item-1'' \<and>
   Aliases (data (after (aliasCommand memory_Save
      \<lparr>data = assign_alias one_item ''item-1'' ''a'', store = one_item\<rparr> [''item-1'', ''b'']))) ''b''
     = Some ''item-1'' \<and>
   BackAliases (data (after (aliasCommand memory_Save
      \<lparr>data = assign_alias one_item ''item-1'' ''a'', store = one_item\<rparr> [''item-1'', ''b'']))) ''item-1''
     = Some ''b''"
proof -
  let ?s = "\<lparr>data = assign_alias one_item ''item-1'' ''a'', store = one_item\<rparr>"
  have h: "Tokens (data ?s) ''item-1'' \<noteq> None" "Aliases (data ?s) ''a'' = Some ''item-1''"
    "BackAliases (data ?s) ''item-1'' = Some ''a''"
    by (simp_all add: assign_alias_def one_item_def)
  from reassigned_alias_dangles [OF h, of memory_Save "''b''"] show ?thesis
    by (simp add: Let_def)
qed

section \<open>Alias resolution\<close>

text \<open>
  Claim C5, as stated, says that for every input string both commands use
  \<open>Aliases[s]\<close> when \<open>s\<close> is a key of \<open>Aliases\<close>, and that \<^verbatim>\<open>item-123\<close> resolves to
  itself once it has the alias \<^verbatim>\<open>checking\<close>. With the empty string an alias of
  \<^verbatim>\<open>item-1\<close>, the link command given the empty string calls \<^verbatim>\<open>Link\<close> and never
  \<^verbatim>\<open>Relink\<close> on \<^verbatim>\<open>item-1\<close>; and where the string \<^verbatim>\<open>item-123\<close> is itself an alias of
  \<^verbatim>\<open>item-9\<close>, it resolves to \<^verbatim>\<open>item-9\<close>.
\<close>

theorem empty_alias_not_resolved_by_link:
  "Aliases unnamed '''' = Some ''item-1'' \<and>
   trace (linkCommand \<lparr>Link = granting_Link, Relink = failing_Relink\<rparr> memory_Save ''8080''
      \<lparr>data = unnamed, store = unnamed\<rparr> ['''']) = [Link_call ''8080'', Save_call] \<and>
   Tokens shadowed ''item-123'' \<noteq> None \<and>
   resolveAlias (data (after (aliasCommand memory_Save \<lparr>data = shadowed, store = shadowed\<rparr>
      [''item-123'', ''checking'']))) ''item-123'' = ''item-9''"
  by (simp add: unnamed_def shadowed_def aliasCommand_data assign_alias_def one_item_def
      linkCommand_def MaximumNArgs_def linkCommand_Run_def link_store_def granting_Link_def
      memory_Save_def resolveAlias_def Let_def)

text \<open>
  Claim C5, amended: alias resolution is a total function with no error result. For
  every input string \<open>x\<close> the transactions command uses \<open>Aliases[x]\<close> as the item
  identifier when \<open>x\<close> is a key of \<open>Aliases\<close> and \<open>x\<close> itself otherwise; the link
  command does the same for every non-empty \<open>x\<close>, and for the empty string it starts a
  fresh link without looking at \<open>Aliases\<close>. A string that is not a key of \<open>Aliases\<close>
  resolves to itself; in particular, in a store where \<^verbatim>\<open>item-123\<close> is linked and neither
  \<^verbatim>\<open>item-123\<close> nor \<^verbatim>\<open>unknown-alias\<close> is an alias, after \<^verbatim>\<open>alias item-123 checking\<close> the
  name \<^verbatim>\<open>checking\<close> resolves to \<^verbatim>\<open>item-123\<close>, and \<^verbatim>\<open>item-123\<close> and \<^verbatim>\<open>unknown-alias\<close>
  resolve to themselves.
\<close>

theorem alias_resolution:
  "transactionsCommand_Run GetTransactions serialize d fromFlag toFlag outputFormat (x # rest)
     = transactions_fetch GetTransactions serialize d
         (case Aliases d x of Some itemID \<Rightarrow> itemID | None \<Rightarrow> x) fromFlag toFlag outputFormat \<and>
   (x \<noteq> '''' \<longrightarrow>
      linkCommand_Run l Save port s (x # rest)
        = (let itemID = (case Aliases (data s) x of Some itemID \<Rightarrow> itemID | None \<Rightarrow> x)
           in link_store Save s [Relink_call itemID port] (Relink l itemID port))) \<and>
   linkCommand_Run l Save port s ('''' # rest) = link_store Save s [Link_call port] (Link l port) \<and>
   (Aliases d x = None \<longrightarrow> resolveAlias d x = x) \<and>
   (Tokens (data s) ''item-123'' \<noteq> None \<and> Aliases (data s) ''item-123'' = None \<and>
    Aliases (data s) ''unknown-alias'' = None \<longrightarrow>
      (let d' = data (after (aliasCommand Save s [''item-123'', ''checking'']))
       in resolveAlias d' ''checking'' = ''item-123'' \<and>
          resolveAlias d' ''item-123'' = ''item-123'' \<and>
          resolveAlias d' ''unknown-alias'' = ''unknown-alias''))"
  by (auto simp add: transactionsCommand_Run_def linkCommand_Run_def resolveAlias_def
      aliasCommand_data assign_alias_def Let_def)

theorem alias_resolution_witness:
  "linkCommand_Run \<lparr>Link = granting_Link, Relink = failing_Relink\<rparr> memory_Save ''8080''
      \<lparr>data = fresh_store, store = fresh_store\<rparr> [''checking'']
     = link_store memory_Save \<lparr>data = fresh_store, store = fresh_store\<rparr>
         [Relink_call ''checking'' ''8080''] (failing_Relink ''checking'' ''8080'') \<and>
   resolveAlias fresh_store ''checking'' = ''checking'' \<and>
   resolveAlias (data (after (aliasCommand memory_Save \<lparr>data = fresh_store, store = fresh_store\<rparr>
      [''item-123'', ''checking'']))) ''checking'' = ''item-123'' \<and>
   resolveAlias (data (after (aliasCommand memory_Save \<lparr>data = fresh_store, store = fresh_store\<rparr>
      [''item-123'', ''checking'']))) ''item-123'' = ''item-123'' \<and>
   resolveAlias (data (after (aliasCommand memory_Save \<lparr>data = fresh_store, store = fresh_store\<rparr>
      [''item-123'', ''checking'']))) ''unknown-alias'' = ''unknown-alias''"
proof -
  let ?s = "\<lparr>data = fresh_store, store = fresh_store\<rparr>"
  have h: "''checking'' \<noteq> ''''" "Aliases fresh_store ''checking'' = None"
    "Tokens (data ?s) ''item-123'' \<noteq> None \<and> Aliases (data ?s) ''item-123'' = None \<and>
     Aliases (data ?s) ''unknown-alias'' = None"
    by (simp_all add: fresh_store_def)
  from h alias_resolution [where x = "''checking''" and d = fresh_store and s = ?s
      and Save = memory_Save and l = "\<lparr>Link = granting_Link, Relink = failing_Relink\<rparr>"
      and port = "''8080''" and rest = "[]"
      and GetTransactions = sandbox_GetTransactions and serialize = plain_serialize
      and fromFlag = "''2020-01-01''" and toFlag = "''2020-02-01''" and outputFormat = "''json''"]
  show ?thesis
    by (simp add: Let_def failing_Relink_def)
qed

section \<open>The tokens command\<close>













section \<open>The handshake\<close>

lemma receive_resolved: "signal h \<noteq> None \<Longrightarrow> receive h c = h"
  by (auto simp add: receive_def)

lemma foldl_receive_resolved: "signal h \<noteq> None \<Longrightarrow> foldl receive h cs = h"
  by (induction cs) (simp_all add: receive_resolved)

lemma receive_signal: "signal h = None \<Longrightarrow> signal (receive h c) \<noteq> None"
  by (simp add: receive_def)

lemma foldl_receive_first: "signal h = None \<Longrightarrow> foldl receive h (c # cs) = receive h c"
  by (simp add: foldl_receive_resolved receive_signal)

lemma Await_receive:
  "signal h = None \<Longrightarrow>
     Await (receive h c) =
       (case c of Completed publicToken \<Rightarrow> Inr publicToken
        | Abandoned errorCode errorMessage \<Rightarrow> Inl (HandshakeRejected errorCode))"
  by (simp add: receive_def Await_def)

lemma handshake_exchanged:
  assumes "binds env port" and "callbacks env = Completed publicToken # cs"
    and "Exchange env publicToken = Inr tokenPair"
  shows "handshake env itemID port = Inr tokenPair"
proof -
  let ?h = "\<lparr>target = itemID, bound_port = port, signal = None\<rparr>"
  have idle: "signal ?h = None" by simp
  have "foldl receive ?h (callbacks env) = receive ?h (Completed publicToken)"
    unfolding assms(2) using idle by (rule foldl_receive_first)
  then have "Await (foldl receive ?h (callbacks env)) = Await (receive ?h (Completed publicToken))"
    by (rule arg_cong)
  also have "\<dots> = Inr publicToken"
    by (simp add: Await_receive)
  finally show ?thesis
    using assms(1,3) by (simp add: handshake_def)
qed

text \<open>
  Claim C6: a \<^verbatim>\<open>Relink(itemID, port)\<close> that succeeds returns a pair whose \<open>ItemID\<close> is
  \<open>itemID\<close>; when the port binds, the browser delivers a public token and the exchange
  returns a pair with another item identifier, \<^verbatim>\<open>Relink\<close> fails with
  \<open>ItemMismatchError\<close> and returns no pair.
\<close>

theorem Relink_item_identity:
  "(spec_Relink env itemID port = Inr tokenPair \<longrightarrow> ItemID tokenPair = itemID) \<and>
   (binds env port \<and> callbacks env = Completed publicToken # cs \<and>
    Exchange env publicToken = Inr exchanged \<and> ItemID exchanged \<noteq> itemID \<longrightarrow>
      spec_Relink env itemID port = Inl ItemMismatchError)"
proof (intro conjI impI)
  assume "spec_Relink env itemID port = Inr tokenPair"
  then show "ItemID tokenPair = itemID"
    by (auto simp add: spec_Relink_def split: sum.splits if_splits)
next
  assume a: "binds env port \<and> callbacks env = Completed publicToken # cs \<and>
    Exchange env publicToken = Inr exchanged \<and> ItemID exchanged \<noteq> itemID"
  then have "handshake env itemID port = Inr exchanged"
    by (simp add: handshake_exchanged)
  with a show "spec_Relink env itemID port = Inl ItemMismatchError"
    by (simp add: spec_Relink_def)
qed

theorem Relink_item_identity_witness:
  "spec_Relink sandbox_env ''item-123'' ''8080''
     = Inr \<lparr>ItemID = ''item-123'', AccessToken = ''access-sandbox-xyz''\<rparr> \<and>
   spec_Relink sandbox_env ''item-456'' ''8080'' = Inl ItemMismatchError"
proof -
  let ?pair = "\<lparr>ItemID = ''item-123'', AccessToken = ''access-sandbox-xyz''\<rparr>"
  have ok: "spec_Relink sandbox_env ''item-123'' ''8080'' = Inr ?pair"
    by (simp add: spec_Relink_def handshake_def sandbox_env_def receive_def Await_def)
  have mismatch: "binds sandbox_env ''8080'' \<and>
      callbacks sandbox_env = Completed ''public-sandbox-abc'' # [Completed ''public-sandbox-late''] \<and>
      Exchange sandbox_env ''public-sandbox-abc'' = Inr ?pair \<and> ItemID ?pair \<noteq> ''item-456''"
    by (simp add: sandbox_env_def)
  from ok mismatch
    Relink_item_identity [of sandbox_env "''item-123''" "''8080''" ?pair
      "''public-sandbox-abc''" "[Completed ''public-sandbox-late'']" ?pair]
    Relink_item_identity [of sandbox_env "''item-456''" "''8080''" ?pair
      "''public-sandbox-abc''" "[Completed ''public-sandbox-late'']" ?pair]
  show ?thesis by simp
qed

text \<open>
  Claim C8: of every sequence of invocations of the receiving path only the first is
  honoured. On a session whose signal is not yet resolved, the whole sequence leaves the
  session as its first invocation does, and \<^verbatim>\<open>Await\<close> returns what that invocation
  delivered; on a session whose signal is resolved, an invocation changes nothing (it
  has no error result) and \<^verbatim>\<open>Await\<close> returns what it returned before.
\<close>

theorem callback_delivered_at_most_once:
  "(signal h = None \<longrightarrow>
      foldl receive h (c # cs) = receive h c \<and>
      Await (foldl receive h (c # cs)) =
        (case c of Completed publicToken \<Rightarrow> Inr publicToken
         | Abandoned errorCode errorMessage \<Rightarrow> Inl (HandshakeRejected errorCode))) \<and>
   (signal h \<noteq> None \<longrightarrow> receive h c = h \<and> Await (foldl receive h cs) = Await h)"
proof (intro conjI impI)
  assume idle: "signal h = None"
  then show first: "foldl receive h (c # cs) = receive h c"
    by (rule foldl_receive_first)
  show "Await (foldl receive h (c # cs)) =
        (case c of Completed publicToken \<Rightarrow> Inr publicToken
         | Abandoned errorCode errorMessage \<Rightarrow> Inl (HandshakeRejected errorCode))"
    unfolding first using idle by (rule Await_receive)
next
  assume fired: "signal h \<noteq> None"
  then show "receive h c = h" by (rule receive_resolved)
  from fired have "foldl receive h cs = h" by (rule foldl_receive_resolved)
  then show "Await (foldl receive h cs) = Await h" by (rule arg_cong)
qed

theorem callback_delivered_at_most_once_witness:
  "Await (foldl receive idle_session [Completed ''public-sandbox-abc'', Completed ''public-sandbox-late''])
     = Inr ''public-sandbox-abc'' \<and>
   receive (receive idle_session (Completed ''public-sandbox-abc'')) (Completed ''public-sandbox-late'')
     = receive idle_session (Completed ''public-sandbox-abc'')"
proof -
  have idle: "signal idle_session = None"
    by (simp add: idle_session_def)
  have fired: "signal (receive idle_session (Completed ''public-sandbox-abc'')) \<noteq> None"
    by (simp add: idle_session_def receive_def)
  from idle fired
    callback_delivered_at_most_once [of idle_session "Completed ''public-sandbox-abc''"
      "[Completed ''public-sandbox-late'']"]
    callback_delivered_at_most_once [of "receive idle_session (Completed ''public-sandbox-abc'')"
      "Completed ''public-sandbox-late''" "[]"]
  show ?thesis by simp
qed

section \<open>Saving the store file\<close>

lemma foldl_Append:
  "foldl apply_op (fs(tmp \<mapsto> acc)) (map (Append tmp) bytes) = fs(tmp \<mapsto> acc @ bytes)"
  by (induction bytes arbitrary: acc) simp_all

lemma written_prefix:
  "foldl apply_op fs (Create tmp # map (Append tmp) bytes) = fs(tmp \<mapsto> bytes)"
  using foldl_Append [of fs tmp "''''" bytes] by simp

lemma take_Save_ops:
  assumes "k \<le> Suc (length (serialize d))"
  shows "take k (Save_ops serialize tmp path d) =
           (case k of 0 \<Rightarrow> [] | Suc j \<Rightarrow> Create tmp # map (Append tmp) (take j (serialize d)))"
  using assms by (cases k) (simp_all add: Save_ops_def take_map)

text \<open>
  Claim C7: \<^verbatim>\<open>Save\<close> writes the serialized maps to a temporary file and replaces the
  target by a rename. With the temporary path different from the target, a crash after
  any number of its file operations short of all of them (so before the rename is done)
  leaves the target file as it was, byte for byte; when \<^verbatim>\<open>Save\<close> has run to its end the
  target holds the whole serialized content.
\<close>

theorem Save_crash_atomic:
  assumes "tmp \<noteq> path"
  shows "(k < length (Save_ops serialize tmp path d) \<longrightarrow>
            Save_crashing k serialize tmp path d fs path = fs path) \<and>
         snd (spec_Save serialize tmp path d fs) path = Some (serialize d) \<and>
         Save_crashing (length (Save_ops serialize tmp path d)) serialize tmp path d fs
           = snd (spec_Save serialize tmp path d fs)"
proof (intro conjI impI)
  assume "k < length (Save_ops serialize tmp path d)"
  then have k: "k \<le> Suc (length (serialize d))"
    by (simp add: Save_ops_def)
  show "Save_crashing k serialize tmp path d fs path = fs path"
  proof (cases k)
    case 0
    then show ?thesis by (simp add: Save_crashing_def)
  next
    case (Suc j)
    with take_Save_ops [of k serialize d tmp path] k
    have "Save_crashing k serialize tmp path d fs = fs(tmp \<mapsto> take j (serialize d))"
      by (simp add: Save_crashing_def written_prefix del: foldl_Cons)
    with assms show ?thesis by simp
  qed
next
  have "foldl apply_op fs (Save_ops serialize tmp path d)
          = apply_op (fs(tmp \<mapsto> serialize d)) (Rename tmp path)"
    unfolding Save_ops_def using written_prefix [of fs tmp "serialize d"]
    by (simp del: apply_op.simps)
  then show "snd (spec_Save serialize tmp path d fs) path = Some (serialize d)"
    using assms by (simp add: spec_Save_def)
next
  show "Save_crashing (length (Save_ops serialize tmp path d)) serialize tmp path d fs
           = snd (spec_Save serialize tmp path d fs)"
    by (simp add: Save_crashing_def spec_Save_def)
qed

theorem Save_crash_atomic_witness:
  "Save_crashing 5 item_1_line ''data.json.tmp'' ''data.json'' one_item old_files ''data.json''
     = Some ''old'' \<and>
   Save_crashing 5 item_1_line ''data.json.tmp'' ''data.json'' one_item old_files ''data.json.tmp''
     = Some ''item'' \<and>
   snd (spec_Save item_1_line ''data.json.tmp'' ''data.json'' one_item old_files) ''data.json''
     = Some ''item-1=access-1''"
proof -
  have ne: "''data.json.tmp'' \<noteq> ''data.json''" by simp
  have k: "5 < length (Save_ops item_1_line ''data.json.tmp'' ''data.json'' one_item)"
    by (simp add: Save_ops_def item_1_line_def one_item_def)
  have partial: "Save_crashing 5 item_1_line ''data.json.tmp'' ''data.json'' one_item old_files
      ''data.json.tmp'' = Some ''item''"
    by (simp add: Save_crashing_def Save_ops_def item_1_line_def one_item_def old_files_def)
  from k partial Save_crash_atomic [OF ne, of 5 item_1_line one_item old_files]
  show ?thesis
    by (simp add: old_files_def item_1_line_def one_item_def)
qed

end
